theory Spec2Isabelle
  imports Complex_Main
begin

section \<open>Data model (api/models.py)\<close>

text \<open>
  Rows of the Django models that the scoring and badge tasks read or write. Primary and
  foreign keys are natural numbers. A \<open>FloatField\<close> is modelled by an exact rational:
  the results below are about the arithmetic the code performs, not about the rounding
  of IEEE doubles. A nullable field is an \<open>option\<close>.
\<close>

record answer =
  a_id :: nat
  a_question :: nat
  a_text :: string
  a_is_correct :: bool

record question =
  q_id :: nat
  q_quest :: nat
  max_score :: rat
  cognitive_level :: "string option"
  topic :: "string option"

text \<open>
  \<open>UserAnswerAttempt\<close>. The attribute \<open>ua.answer\<close> is the \<open>Answer\<close> object the
  foreign key resolves to; the code only reads it (\<open>ua.answer.is_correct\<close>), so the row
  carries the resolved object.
\<close>

record user_answer_attempt =
  ua_id :: nat
  ua_user_quest_attempt :: nat
  ua_question :: nat
  ua_answer :: answer
  is_selected :: bool
  ua_is_correct :: bool
  hint_used :: bool
  score_achieved :: rat

record user_quest_attempt =
  uqa_id :: nat
  uqa_student :: nat
  uqa_quest :: nat
  submitted :: bool
  first_attempted_date :: "int option"
  last_attempted_date :: "int option"
  total_score_achieved :: rat

text \<open>A \<open>DateTimeField\<close> is a number of microseconds since the epoch (the resolution of a
  Python \<open>datetime\<close>).\<close>

record eduquest_user =
  u_id :: nat
  username :: string
  total_points :: rat

record course_group =
  cg_id :: nat
  cg_course :: nat

record quest =
  quest_id :: nat
  quest_course_group :: nat
  quest_type :: string
  quest_status :: string
  tutorial_date :: "int option"

text \<open>\<open>UserCourseGroupEnrollment\<close>, \<open>Badge\<close>, \<open>UserQuestBadge\<close> and \<open>UserCourseBadge\<close>. The
  automatic primary key and the \<open>awarded_date\<close> of an award row are not read by the
  tasks and are left out.\<close>

record user_course_group_enrollment =
  e_id :: nat
  e_student :: nat
  e_course_group :: nat
  completed_on :: "int option"

record badge =
  b_id :: nat
  b_name :: string

record user_quest_badge =
  uqb_badge :: nat
  uqb_user_quest_attempt :: nat

record user_course_badge =
  ucb_badge :: nat
  ucb_user_course_group_enrollment :: nat

text \<open>\<open>StudentCognitiveProfile\<close>. \<open>weak_topics\<close> is a Python dictionary, kept as the list of
  its items in insertion order; a key is the question's \<open>topic\<close>, which may be \<open>None\<close>.\<close>

record student_cognitive_profile =
  p_student :: nat
  remember_accuracy :: rat
  understand_accuracy :: rat
  apply_accuracy :: rat
  analyse_accuracy :: rat
  evaluate_accuracy :: rat
  create_accuracy :: rat
  weak_topics :: "(string option \<times> rat) list"
  competency_level :: string
  recommend_difficulty :: rat

text \<open>A parsed JSON value, and \<open>StudentFeedback\<close> (one row per quest attempt).\<close>

datatype json =
  JNull
  | JBool bool
  | JNumber rat
  | JString string
  | JArray "json list"
  | JObject "(string \<times> json) list"

record student_feedback =
  sf_user_quest_attempt :: nat
  sf_strengths :: json
  sf_weaknesses :: json
  sf_recommendations :: json
  sf_question_feedback :: json
  sf_quest_summary :: json
  sf_subtopic_feedback :: json
  sf_study_tips :: json

record db =
  users :: "eduquest_user list"
  course_groups :: "course_group list"
  quests :: "quest list"
  questions :: "question list"
  answers :: "answer list"
  user_quest_attempts :: "user_quest_attempt list"
  user_answer_attempts :: "user_answer_attempt list"
  enrollments :: "user_course_group_enrollment list"
  badges :: "badge list"
  user_quest_badges :: "user_quest_badge list"
  user_course_badges :: "user_course_badge list"
  cognitive_profiles :: "student_cognitive_profile list"
  student_feedbacks :: "student_feedback list"

definition empty_db :: db where
  "empty_db = \<lparr>users = [], course_groups = [], quests = [], questions = [], answers = [],
     user_quest_attempts = [], user_answer_attempts = [], enrollments = [], badges = [],
     user_quest_badges = [], user_course_badges = [], cognitive_profiles = [],
     student_feedbacks = []\<rparr>"

text \<open>The two exceptions of \<open>Model.objects.get\<close>, and the lookup itself. A foreign-key
  attribute (\<open>instance.student\<close>, \<open>instance.quest\<close>) is such a lookup by primary key.\<close>

datatype error = DoesNotExist | MultipleObjectsReturned

definition objects_get :: "('a \<Rightarrow> bool) \<Rightarrow> 'a list \<Rightarrow> error + 'a" where
  "objects_get P table =
     (case filter P table of
        [] \<Rightarrow> Inl DoesNotExist
      | [x] \<Rightarrow> Inr x
      | _ \<Rightarrow> Inl MultipleObjectsReturned)"

text \<open>\<open>aggregate(Max(...))\<close> is \<open>None\<close> on an empty queryset; \<open>x or 0\<close> turns \<open>None\<close>
  (and a zero) into 0.\<close>

definition aggregate_max :: "rat list \<Rightarrow> rat option" where
  "aggregate_max xs = (case xs of [] \<Rightarrow> None | x # rest \<Rightarrow> Some (fold max rest x))"

definition or_zero :: "rat option \<Rightarrow> rat" where
  "or_zero v = (case v of None \<Rightarrow> 0 | Some x \<Rightarrow> if x = 0 then 0 else x)"

section \<open>Score Calculator (UserQuestAttempt.calculate\_total\_score\_achieved)\<close>

text \<open>\<open>self.quest.questions.all()\<close>, \<open>question.answers.all()\<close> and
  \<open>self.answer_attempts.filter(question=question)\<close>, in table order.\<close>

definition quest_questions :: "db \<Rightarrow> user_quest_attempt \<Rightarrow> question list" where
  "quest_questions d self = filter (\<lambda>q. q_quest q = uqa_quest self) (questions d)"

definition question_answers :: "db \<Rightarrow> question \<Rightarrow> answer list" where
  "question_answers d q = filter (\<lambda>a. a_question a = q_id q) (answers d)"

definition user_answers_of :: "db \<Rightarrow> user_quest_attempt \<Rightarrow> question \<Rightarrow> user_answer_attempt list" where
  "user_answers_of d self q =
     filter (\<lambda>ua. ua_user_quest_attempt ua = uqa_id self \<and> ua_question ua = q_id q)
       (user_answer_attempts d)"

text \<open>\<open>question.max_score / (num_correct or 1)\<close>.\<close>

definition weight_per_option :: "db \<Rightarrow> question \<Rightarrow> rat" where
  "weight_per_option d q =
     (let num_correct = length (filter a_is_correct (question_answers d q))
      in max_score q / (if num_correct = 0 then 1 else of_nat num_correct))"

text \<open>The first inner loop: it sets \<open>score_achieved\<close> on every fetched object and
  accumulates \<open>question_score\<close>.\<close>

fun award_loop :: "rat \<Rightarrow> user_answer_attempt list \<Rightarrow> rat \<Rightarrow> rat \<times> user_answer_attempt list" where
  "award_loop w [] question_score = (question_score, [])"
| "award_loop w (ua # rest) question_score =
     (if is_selected ua \<and> a_is_correct (ua_answer ua)
      then (case award_loop w rest (question_score + w) of
              (s, out) \<Rightarrow> (s, ua\<lparr>score_achieved := w\<rparr> # out))
      else (case award_loop w rest question_score of
              (s, out) \<Rightarrow> (s, ua\<lparr>score_achieved := 0\<rparr> # out)))"

text \<open>The second inner loop (hint penalty). It iterates the same queryset again; Django
  caches the rows of an evaluated queryset, so these are the objects the first loop
  wrote to and appended to \<open>user_answer_attempts_to_update\<close>.\<close>

fun penalty_loop :: "user_answer_attempt list \<Rightarrow> rat \<Rightarrow> user_answer_attempt list" where
  "penalty_loop [] remaining_penalty = []"
| "penalty_loop (ua # rest) remaining_penalty =
     (if score_achieved ua > 0 \<and> remaining_penalty > 0
      then (let deduction = min (score_achieved ua) remaining_penalty
            in ua\<lparr>score_achieved := score_achieved ua - deduction\<rparr>
                 # penalty_loop rest (remaining_penalty - deduction))
      else ua # penalty_loop rest remaining_penalty)"

text \<open>The body of the loop over questions, for a question that has at least one answer:
  the question's score and the objects as they stand at the end of the iteration.\<close>

definition score_question :: "db \<Rightarrow> user_quest_attempt \<Rightarrow> question \<Rightarrow> rat \<times> user_answer_attempt list" where
  "score_question d self q =
     (let user_answers = user_answers_of d self q in
      case award_loop (weight_per_option d q) user_answers 0 of
        (question_score, objs) \<Rightarrow>
          if list_ex hint_used user_answers
          then (max 0 (question_score - 5), penalty_loop objs 5)
          else (question_score, objs))"

fun questions_loop ::
  "db \<Rightarrow> user_quest_attempt \<Rightarrow> question list \<Rightarrow> rat \<Rightarrow> user_answer_attempt list
     \<Rightarrow> rat \<times> user_answer_attempt list" where
  "questions_loop d self [] total_score to_update = (total_score, to_update)"
| "questions_loop d self (q # qs) total_score to_update =
     (if length (question_answers d q) = 0
      then questions_loop d self qs total_score to_update
      else (case score_question d self q of
              (question_score, objs) \<Rightarrow>
                questions_loop d self qs (total_score + question_score) (to_update @ objs)))"

text \<open>\<open>bulk_update(objs, ['score_achieved'])\<close>: every row whose primary key is the key
  of one of the objects takes that object's \<open>score_achieved\<close> (the first such object, as
  in the generated \<open>CASE WHEN\<close>); nothing else is written.\<close>

definition bulk_update :: "user_answer_attempt list \<Rightarrow> user_answer_attempt list \<Rightarrow> user_answer_attempt list" where
  "bulk_update objs table =
     map (\<lambda>row. case find (\<lambda>obj. ua_id obj = ua_id row) objs of
                   None \<Rightarrow> row
                 | Some obj \<Rightarrow> row\<lparr>score_achieved := score_achieved obj\<rparr>) table"

definition calculate_total_score_achieved :: "db \<Rightarrow> user_quest_attempt \<Rightarrow> rat \<times> db" where
  "calculate_total_score_achieved d self =
     (case questions_loop d self (quest_questions d self) 0 [] of
        (total_score, to_update) \<Rightarrow>
          (total_score, d\<lparr>user_answer_attempts := bulk_update to_update (user_answer_attempts d)\<rparr>))"

section \<open>Points Ledger Updater (tasks.calculate\_score\_and\_issue\_points)\<close>

datatype points_result =
  Earned rat
  | Did_not_earn
  | Attempt_does_not_exist
  | Failed error

text \<open>\<open>instance.save(update_fields=['total_score_achieved'])\<close>.\<close>

definition save_total_score_achieved :: "db \<Rightarrow> nat \<Rightarrow> rat \<Rightarrow> db" where
  "save_total_score_achieved d pk v =
     d\<lparr>user_quest_attempts :=
         map (\<lambda>a. if uqa_id a = pk then a\<lparr>total_score_achieved := v\<rparr> else a)
           (user_quest_attempts d)\<rparr>"

text \<open>The student's highest score for the quest over the other submitted attempts.\<close>

definition highest_score_achieved :: "db \<Rightarrow> user_quest_attempt \<Rightarrow> rat" where
  "highest_score_achieved d instance =
     or_zero (aggregate_max (map total_score_achieved
       (filter (\<lambda>a. uqa_student a = uqa_student instance \<and> uqa_quest a = uqa_quest instance
                     \<and> submitted a \<and> uqa_id a \<noteq> uqa_id instance)
          (user_quest_attempts d))))"

text \<open>\<open>instance.student.total_points += points_to_add\<close> and
  \<open>instance.student.save(update_fields=['total_points'])\<close>.\<close>

definition add_total_points :: "db \<Rightarrow> eduquest_user \<Rightarrow> rat \<Rightarrow> db" where
  "add_total_points d student points_to_add =
     d\<lparr>users :=
         map (\<lambda>u. if u_id u = u_id student
                  then u\<lparr>total_points := total_points student + points_to_add\<rparr> else u)
           (users d)\<rparr>"

text \<open>
  The task. The body runs in \<open>transaction.atomic()\<close> under \<open>except Exception\<close>: an
  exception leaves the database as it was and the task returns an error message. The
  dispatch of \<open>award_perfectionist_badge\<close> is asynchronous and does not touch the
  tables modelled here.
\<close>

definition calculate_score_and_issue_points :: "db \<Rightarrow> nat \<Rightarrow> points_result \<times> db" where
  "calculate_score_and_issue_points d user_quest_attempt_id =
     (case objects_get (\<lambda>a. uqa_id a = user_quest_attempt_id) (user_quest_attempts d) of
        Inl DoesNotExist \<Rightarrow> (Attempt_does_not_exist, d)
      | Inl MultipleObjectsReturned \<Rightarrow> (Failed MultipleObjectsReturned, d)
      | Inr instance \<Rightarrow>
          (case calculate_total_score_achieved d instance of
             (score, d1) \<Rightarrow>
               (let d2 = save_total_score_achieved d1 (uqa_id instance) score;
                    highest = highest_score_achieved d2 instance
                in if score > highest
                   then (case objects_get (\<lambda>q. quest_id q = uqa_quest instance) (quests d2) of
                           Inl e \<Rightarrow> (Failed e, d)
                         | Inr qst \<Rightarrow>
                             (case objects_get (\<lambda>u. u_id u = uqa_student instance) (users d2) of
                                Inl e \<Rightarrow> (Failed e, d)
                              | Inr student \<Rightarrow>
                                  if quest_type qst \<noteq> ''Private''
                                  then (Earned (score - highest),
                                        add_total_points d2 student (score - highest))
                                  else (Did_not_earn, d2)))
                   else (case objects_get (\<lambda>u. u_id u = uqa_student instance) (users d2) of
                           Inl e \<Rightarrow> (Failed e, d)
                         | Inr student \<Rightarrow> (Did_not_earn, d2)))))"

text \<open>
  A student submits the attempt: \<open>UserQuestAttempt.save\<close> stores \<open>submitted = True\<close>
  and, on the change from false to true, dispatches the task above. \<open>submit_all\<close> is a
  sequence of submissions, each scored before the next.
\<close>

definition mark_submitted :: "db \<Rightarrow> nat \<Rightarrow> db" where
  "mark_submitted d pk =
     d\<lparr>user_quest_attempts :=
         map (\<lambda>a. if uqa_id a = pk then a\<lparr>submitted := True\<rparr> else a) (user_quest_attempts d)\<rparr>"

definition submit_attempt :: "db \<Rightarrow> nat \<Rightarrow> db" where
  "submit_attempt d pk = snd (calculate_score_and_issue_points (mark_submitted d pk) pk)"

fun submit_all :: "db \<Rightarrow> nat list \<Rightarrow> db" where
  "submit_all d [] = d"
| "submit_all d (pk # pks) = submit_all (submit_attempt d pk) pks"

section \<open>Badge Rules Engine (tasks.py)\<close>

text \<open>\<open>Quest.total_max_score\<close>: the sum of \<open>max_score\<close> over the quest's questions, and 0
  (\<open>or 0\<close>) when the quest has none.\<close>

definition total_max_score :: "db \<Rightarrow> quest \<Rightarrow> rat" where
  "total_max_score d qst =
     sum_list (map max_score (filter (\<lambda>q. q_quest q = quest_id qst) (questions d)))"

text \<open>\<open>UserQuestAttempt.time_taken\<close>, in whole milliseconds: 0 when a date is missing or
  the difference is negative. The code multiplies a float number of seconds by 1000 and
  truncates; the model divides the exact number of microseconds.\<close>

definition time_taken :: "user_quest_attempt \<Rightarrow> int" where
  "time_taken a =
     (case first_attempted_date a of
        None \<Rightarrow> 0
      | Some f \<Rightarrow>
          (case last_attempted_date a of
             None \<Rightarrow> 0
           | Some l \<Rightarrow> if l - f < 0 then 0 else (l - f) div 1000))"

text \<open>\<open>get_or_create(badge=..., user_quest_attempt=...)\<close>. The models declare no
  uniqueness constraint on the pair, so more than one matching row raises.\<close>

definition get_or_create_user_quest_badge :: "db \<Rightarrow> nat \<Rightarrow> nat \<Rightarrow> error + (bool \<times> db)" where
  "get_or_create_user_quest_badge d badge_pk attempt_pk =
     (case filter (\<lambda>r. uqb_badge r = badge_pk \<and> uqb_user_quest_attempt r = attempt_pk)
             (user_quest_badges d) of
        [] \<Rightarrow> Inr (True, d\<lparr>user_quest_badges := user_quest_badges d @
                  [\<lparr>uqb_badge = badge_pk, uqb_user_quest_attempt = attempt_pk\<rparr>]\<rparr>)
      | [r] \<Rightarrow> Inr (False, d)
      | _ \<Rightarrow> Inl MultipleObjectsReturned)"

definition get_or_create_user_course_badge :: "db \<Rightarrow> nat \<Rightarrow> nat \<Rightarrow> error + (bool \<times> db)" where
  "get_or_create_user_course_badge d badge_pk enrollment_pk =
     (case filter (\<lambda>r. ucb_badge r = badge_pk \<and> ucb_user_course_group_enrollment r = enrollment_pk)
             (user_course_badges d) of
        [] \<Rightarrow> Inr (True, d\<lparr>user_course_badges := user_course_badges d @
                  [\<lparr>ucb_badge = badge_pk, ucb_user_course_group_enrollment = enrollment_pk\<rparr>]\<rparr>)
      | [r] \<Rightarrow> Inr (False, d)
      | _ \<Rightarrow> Inl MultipleObjectsReturned)"

subsection \<open>Speedster (award\_speedster\_badge)\<close>

text \<open>The return messages of the task, and \<open>Speedster_raised\<close> for an exception the task
  does not catch. Log lines are not modelled.\<close>

datatype speedster_result =
  Speedster_quest_does_not_exist
  | Speedster_skipping_private
  | Speedster_skipping_no_max_score
  | Speedster_no_eligible_attempts
  | Speedster_no_valid_time_taken
  | Speedster_awarded nat
  | Speedster_already_has nat
  | Speedster_not_among_top_three
  | Speedster_raised error

text \<open>The queryset \<open>filter(quest=quest, total_score_achieved__gt=0)
  .exclude(first_attempted_date=None, last_attempted_date=None)\<close>: \<open>exclude\<close> with two
  conditions removes the rows that satisfy both.\<close>

definition speedster_attempts :: "db \<Rightarrow> quest \<Rightarrow> user_quest_attempt list" where
  "speedster_attempts d qst =
     filter (\<lambda>a. uqa_quest a = quest_id qst \<and> total_score_achieved a > 0
                \<and> \<not> (first_attempted_date a = None \<and> last_attempted_date a = None))
       (user_quest_attempts d)"

text \<open>\<open>min(filtered_attempts, key=lambda x: x.time_taken)\<close>: the first attempt of minimal
  time.\<close>

fun min_time_taken :: "user_quest_attempt \<Rightarrow> user_quest_attempt list \<Rightarrow> user_quest_attempt" where
  "min_time_taken best [] = best"
| "min_time_taken best (x # xs) =
     min_time_taken (if time_taken x < time_taken best then x else best) xs"

text \<open>\<open>values_list('total_score_achieved', flat=True).distinct()
  .order_by('-total_score_achieved')[:3]\<close>.\<close>

definition top_three_scores :: "user_quest_attempt list \<Rightarrow> rat list" where
  "top_three_scores attempts = take 3 (rev (sort (remdups (map total_score_achieved attempts))))"

definition award_speedster_badge :: "db \<Rightarrow> nat \<Rightarrow> speedster_result \<times> db" where
  "award_speedster_badge d quest_pk =
     (case objects_get (\<lambda>q. quest_id q = quest_pk) (quests d) of
        Inl DoesNotExist \<Rightarrow> (Speedster_quest_does_not_exist, d)
      | Inl MultipleObjectsReturned \<Rightarrow> (Speedster_raised MultipleObjectsReturned, d)
      | Inr qst \<Rightarrow>
          if quest_type qst = ''Private'' then (Speedster_skipping_private, d)
          else if total_max_score d qst = 0 then (Speedster_skipping_no_max_score, d)
          else let user_quest_attempts = speedster_attempts d qst in
            if user_quest_attempts = [] then (Speedster_no_eligible_attempts, d)
            else (case filter (\<lambda>a. time_taken a > 0) user_quest_attempts of
                [] \<Rightarrow> (Speedster_no_valid_time_taken, d)
              | x # xs \<Rightarrow>
                  (let fastest_attempt = min_time_taken x xs;
                       top_three = top_three_scores user_quest_attempts
                   in if total_score_achieved fastest_attempt \<in> set top_three
                      then (case objects_get (\<lambda>b. b_name b = ''Speedster'') (badges d) of
                              Inl e \<Rightarrow> (Speedster_raised e, d)
                            | Inr bdg \<Rightarrow>
                                (case get_or_create_user_quest_badge d (b_id bdg)
                                        (uqa_id fastest_attempt) of
                                   Inl e \<Rightarrow> (Speedster_raised e, d)
                                 | Inr (created, d') \<Rightarrow>
                                     if created then (Speedster_awarded (uqa_id fastest_attempt), d')
                                     else (Speedster_already_has (uqa_id fastest_attempt), d')))
                      else (Speedster_not_among_top_three, d))))"

subsection \<open>Expert (award\_expert\_badge)\<close>

datatype expert_result =
  Expert_quest_does_not_exist
  | Expert_skipping_private
  | Expert_skipping_no_max_score
  | Expert_not_expired
  | Expert_no_attempts
  | Expert_no_score_above_zero
  | Expert_badge_does_not_exist
  | Expert_no_top_attempts
  | Expert_awarded "nat list"
  | Expert_raised error

text \<open>The loop over \<open>top_attempts\<close>. Each \<open>get_or_create\<close> commits on its own, so an
  exception leaves the rows created before it.\<close>

fun award_expert_loop :: "db \<Rightarrow> nat \<Rightarrow> user_quest_attempt list \<Rightarrow> error option \<times> db" where
  "award_expert_loop d badge_pk [] = (None, d)"
| "award_expert_loop d badge_pk (attempt # rest) =
     (case get_or_create_user_quest_badge d badge_pk (uqa_id attempt) of
        Inl e \<Rightarrow> (Some e, d)
      | Inr (created, d') \<Rightarrow> award_expert_loop d' badge_pk rest)"

definition award_expert_badge :: "db \<Rightarrow> nat \<Rightarrow> expert_result \<times> db" where
  "award_expert_badge d quest_pk =
     (case objects_get (\<lambda>q. quest_id q = quest_pk) (quests d) of
        Inl DoesNotExist \<Rightarrow> (Expert_quest_does_not_exist, d)
      | Inl MultipleObjectsReturned \<Rightarrow> (Expert_raised MultipleObjectsReturned, d)
      | Inr qst \<Rightarrow>
          if quest_type qst = ''Private'' then (Expert_skipping_private, d)
          else if total_max_score d qst = 0 then (Expert_skipping_no_max_score, d)
          else if quest_status qst \<noteq> ''Expired'' then (Expert_not_expired, d)
          else let user_quest_attempts =
                     filter (\<lambda>a. uqa_quest a = quest_id qst) (user_quest_attempts d) in
            if user_quest_attempts = [] then (Expert_no_attempts, d)
            else let highest_score =
                       or_zero (aggregate_max (map total_score_achieved user_quest_attempts)) in
              if highest_score \<le> 0 then (Expert_no_score_above_zero, d)
              else let top_attempts =
                         filter (\<lambda>a. total_score_achieved a = highest_score) user_quest_attempts in
                (case objects_get (\<lambda>b. b_name b = ''Expert'') (badges d) of
                   Inl DoesNotExist \<Rightarrow> (Expert_badge_does_not_exist, d)
                 | Inl MultipleObjectsReturned \<Rightarrow> (Expert_raised MultipleObjectsReturned, d)
                 | Inr bdg \<Rightarrow>
                     if top_attempts = [] then (Expert_no_top_attempts, d)
                     else (case award_expert_loop d (b_id bdg) top_attempts of
                             (Some e, d') \<Rightarrow> (Expert_raised e, d')
                           | (None, d') \<Rightarrow> (Expert_awarded (map uqa_id top_attempts), d'))))"

subsection \<open>Completionist (check\_course\_completion\_and\_award\_completionist\_badge)\<close>

datatype completion_result =
  Completion_no_enrollments
  | Completion_awarded "nat list"
  | Completion_raised error

text \<open>\<open>UserCourseGroupEnrollment.objects.filter(course_group__course_id=course_id)\<close>: the
  enrollments joined with their course group.\<close>

definition course_enrollments :: "db \<Rightarrow> nat \<Rightarrow> user_course_group_enrollment list" where
  "course_enrollments d course_pk =
     filter (\<lambda>e. list_ex (\<lambda>g. cg_id g = e_course_group e \<and> cg_course g = course_pk)
                    (course_groups d))
       (enrollments d)"

text \<open>The non-private quests of a course group, and the quests among them for which the
  student has a submitted attempt.\<close>

definition quests_in_group :: "db \<Rightarrow> nat \<Rightarrow> quest list" where
  "quests_in_group d group_pk =
     filter (\<lambda>q. quest_course_group q = group_pk \<and> quest_type q \<noteq> ''Private'') (quests d)"

definition user_attempts_in_group :: "db \<Rightarrow> nat \<Rightarrow> quest list \<Rightarrow> nat set" where
  "user_attempts_in_group d student_pk group_quests =
     set (map uqa_quest
       (filter (\<lambda>a. uqa_student a = student_pk \<and> uqa_quest a \<in> set (map quest_id group_quests)
                     \<and> submitted a)
          (user_quest_attempts d)))"

text \<open>\<open>enrollment.completed_on = timezone.now(); enrollment.save()\<close>.\<close>

definition save_completed_on :: "db \<Rightarrow> nat \<Rightarrow> int \<Rightarrow> db" where
  "save_completed_on d enrollment_pk now =
     d\<lparr>enrollments :=
         map (\<lambda>e. if e_id e = enrollment_pk then e\<lparr>completed_on := Some now\<rparr> else e)
           (enrollments d)\<rparr>"

text \<open>The loop over the enrollments; \<open>awarded\<close> collects the enrollments awarded so far
  (the code collects the usernames). \<open>Badge.DoesNotExist\<close> is not caught by the task.\<close>

fun completion_loop ::
  "db \<Rightarrow> int \<Rightarrow> user_course_group_enrollment list \<Rightarrow> nat list \<Rightarrow> completion_result \<times> db" where
  "completion_loop d now [] awarded = (Completion_awarded awarded, d)"
| "completion_loop d now (enrollment # rest) awarded =
     (let group_quests = quests_in_group d (e_course_group enrollment) in
      if group_quests = [] then completion_loop d now rest awarded
      else if set (map quest_id group_quests)
                = user_attempts_in_group d (e_student enrollment) group_quests
      then (let d1 = save_completed_on d (e_id enrollment) now in
            case objects_get (\<lambda>b. b_name b = ''Completionist'') (badges d1) of
              Inl e \<Rightarrow> (Completion_raised e, d1)
            | Inr bdg \<Rightarrow>
                (case get_or_create_user_course_badge d1 (b_id bdg) (e_id enrollment) of
                   Inl e \<Rightarrow> (Completion_raised e, d1)
                 | Inr (created, d2) \<Rightarrow>
                     completion_loop d2 now rest (awarded @ [e_id enrollment])))
      else completion_loop d now rest awarded)"

definition check_course_completion_and_award_completionist_badge ::
  "db \<Rightarrow> int \<Rightarrow> nat \<Rightarrow> completion_result \<times> db" where
  "check_course_completion_and_award_completionist_badge d now course_pk =
     (let user_course_group_enrollments = course_enrollments d course_pk in
      if user_course_group_enrollments = [] then (Completion_no_enrollments, d)
      else completion_loop d now user_course_group_enrollments [])"

subsection \<open>Course expiry (Course.save) and Tutorial Attendance\<close>

text \<open>The jobs \<open>Course.save\<close> and \<open>Quest.save\<close> dispatch with \<open>.delay\<close>.\<close>

datatype task =
  Check_course_completion_and_award_completionist_badge nat
  | Award_tutorial_attendance_badges_for_course nat
  | Award_expert_badge nat
  | Award_speedster_badge nat

text \<open>\<open>Quest.save\<close> of a stored quest whose status is set to \<open>new_status\<close>: the row is
  written, and on the change from Active to Expired the expiration date is set and the
  two quest badges are dispatched. (The expiration date is not read by the tasks above and
  is not part of the row modelled.)\<close>

definition quest_save :: "db \<Rightarrow> quest \<Rightarrow> string \<Rightarrow> db \<times> task list" where
  "quest_save d qst new_status =
     (d\<lparr>quests := map (\<lambda>q. if quest_id q = quest_id qst then q\<lparr>quest_status := new_status\<rparr> else q)
                     (quests d)\<rparr>,
      if quest_status qst = ''Active'' \<and> new_status = ''Expired''
      then [Award_expert_badge (quest_id qst), Award_speedster_badge (quest_id qst)]
      else [])"

fun expire_quests :: "db \<Rightarrow> quest list \<Rightarrow> db \<times> task list" where
  "expire_quests d [] = (d, [])"
| "expire_quests d (q # qs) =
     (case quest_save d q ''Expired'' of
        (d1, ts1) \<Rightarrow> (case expire_quests d1 qs of (d2, ts2) \<Rightarrow> (d2, ts1 @ ts2)))"

text \<open>\<open>Course.save\<close> of a stored course, \<open>old_status_value\<close> being the status read back
  before the write: on the change from Active to Expired it dispatches the two course
  jobs and expires every quest of every group of the course.\<close>

definition course_save :: "db \<Rightarrow> nat \<Rightarrow> string \<Rightarrow> string \<Rightarrow> db \<times> task list" where
  "course_save d course_pk old_status_value status =
     (if old_status_value = ''Active'' \<and> status = ''Expired''
      then (case expire_quests d
                   (concat (map (\<lambda>g. filter (\<lambda>q. quest_course_group q = cg_id g) (quests d))
                              (filter (\<lambda>g. cg_course g = course_pk) (course_groups d)))) of
              (d', ts) \<Rightarrow>
                (d', [Check_course_completion_and_award_completionist_badge course_pk,
                      Award_tutorial_attendance_badges_for_course course_pk] @ ts))
      else (d, []))"

text \<open>
  Modelled from the spec: \<open>tasks.award_tutorial_attendance_badges_for_course\<close> is imported
  by \<open>Course.save\<close> and called by \<open>tests/test_tasks.py\<close>, and \<open>tasks.py\<close> does not define
  it. The specification says: when the course expires, the fraction of tutorial-type
  quests with a submitted attempt is compared with 70\% (Full) and with 50\% (Half), the
  two thresholds being independent. Which quests are tutorial-type is not stated and is
  the parameter \<open>is_tutorial\<close>; the quests counted are those of the enrollment's course
  group; the badge names are those the test creates. An enrollment without tutorial
  quests, and a badge that does not exist, are skipped.
\<close>

definition tutorial_quests :: "(quest \<Rightarrow> bool) \<Rightarrow> db \<Rightarrow> nat \<Rightarrow> quest list" where
  "tutorial_quests is_tutorial d group_pk =
     filter (\<lambda>q. quest_course_group q = group_pk \<and> is_tutorial q) (quests d)"

definition attended :: "db \<Rightarrow> nat \<Rightarrow> quest \<Rightarrow> bool" where
  "attended d student_pk q =
     list_ex (\<lambda>a. uqa_student a = student_pk \<and> uqa_quest a = quest_id q \<and> submitted a)
       (user_quest_attempts d)"

definition attendance_fraction :: "(quest \<Rightarrow> bool) \<Rightarrow> db \<Rightarrow> user_course_group_enrollment \<Rightarrow> rat" where
  "attendance_fraction is_tutorial d enrollment =
     of_nat (length (filter (attended d (e_student enrollment))
                       (tutorial_quests is_tutorial d (e_course_group enrollment))))
       / of_nat (length (tutorial_quests is_tutorial d (e_course_group enrollment)))"

definition award_course_badge_named :: "db \<Rightarrow> string \<Rightarrow> nat \<Rightarrow> db" where
  "award_course_badge_named d name enrollment_pk =
     (case objects_get (\<lambda>b. b_name b = name) (badges d) of
        Inl e \<Rightarrow> d
      | Inr bdg \<Rightarrow>
          (case get_or_create_user_course_badge d (b_id bdg) enrollment_pk of
             Inl e \<Rightarrow> d
           | Inr (created, d') \<Rightarrow> d'))"

definition award_tutorial_attendance_for_enrollment ::
  "(quest \<Rightarrow> bool) \<Rightarrow> db \<Rightarrow> db \<Rightarrow> user_course_group_enrollment \<Rightarrow> db" where
  "award_tutorial_attendance_for_enrollment is_tutorial d0 d enrollment =
     (if tutorial_quests is_tutorial d0 (e_course_group enrollment) = [] then d
      else
        (let fraction = attendance_fraction is_tutorial d0 enrollment;
             d1 = (if fraction \<ge> 7 / 10
                   then award_course_badge_named d ''Full Attendance'' (e_id enrollment) else d)
         in if fraction \<ge> 1 / 2
            then award_course_badge_named d1 ''Half Attendance'' (e_id enrollment) else d1))"

definition award_tutorial_attendance_badges_for_course :: "(quest \<Rightarrow> bool) \<Rightarrow> db \<Rightarrow> nat \<Rightarrow> db" where
  "award_tutorial_attendance_badges_for_course is_tutorial d course_pk =
     fold (\<lambda>enrollment acc. award_tutorial_attendance_for_enrollment is_tutorial d acc enrollment)
       (course_enrollments d course_pk) d"

section \<open>Cognitive Profile Aggregator (tasks.update\_cognitive\_profile)\<close>

text \<open>\<open>level_stats\<close> and \<open>topic_stats\<close>: dictionaries from a key to the counters
  \<open>total\<close> and \<open>correct\<close>, kept as the list of their items in insertion order. One
  observation creates the entry if the key is new and increments the counters.\<close>

fun stats_add :: "'k \<Rightarrow> bool \<Rightarrow> ('k \<times> nat \<times> nat) list \<Rightarrow> ('k \<times> nat \<times> nat) list" where
  "stats_add k is_correct [] = [(k, 1, if is_correct then 1 else 0)]"
| "stats_add k is_correct ((k', total_count, correct) # rest) =
     (if k' = k
      then (k', total_count + 1, if is_correct then correct + 1 else correct) # rest
      else (k', total_count, correct) # stats_add k is_correct rest)"

text \<open>The two nested loops, flattened: every answer attempt of every submitted attempt of
  the student, in order. \<open>answer_attempt.question\<close> is a lookup by primary key.
  \<open>getattr(question, 'cognitive_level', 'Understand')\<close> and
  \<open>getattr(question, 'topic', 'General')\<close> return the attribute, which every \<open>Question\<close>
  has: the default is used only for an object without the attribute, never for a value of
  \<open>None\<close>.\<close>

definition student_answer_attempts :: "db \<Rightarrow> nat \<Rightarrow> user_answer_attempt list" where
  "student_answer_attempts d student_pk =
     concat (map (\<lambda>attempt. filter (\<lambda>ua. ua_user_quest_attempt ua = uqa_id attempt)
                                (user_answer_attempts d))
               (filter (\<lambda>a. uqa_student a = student_pk \<and> submitted a) (user_quest_attempts d)))"

fun stats_loop ::
  "db \<Rightarrow> user_answer_attempt list \<Rightarrow> (string option \<times> nat \<times> nat) list
     \<Rightarrow> (string option \<times> nat \<times> nat) list
     \<Rightarrow> error + ((string option \<times> nat \<times> nat) list \<times> (string option \<times> nat \<times> nat) list)" where
  "stats_loop d [] level_stats topic_stats = Inr (level_stats, topic_stats)"
| "stats_loop d (answer_attempt # rest) level_stats topic_stats =
     (case objects_get (\<lambda>q. q_id q = ua_question answer_attempt) (questions d) of
        Inl e \<Rightarrow> Inl e
      | Inr question \<Rightarrow>
          stats_loop d rest
            (stats_add (cognitive_level question) (ua_is_correct answer_attempt) level_stats)
            (stats_add (topic question) (ua_is_correct answer_attempt) topic_stats))"

text \<open>\<open>(level_stats.get(name, {}).get('correct', 0)
  / max(level_stats.get(name, {}).get('total', 1), 1)) * 100\<close>.\<close>

definition level_accuracy :: "(string option \<times> nat \<times> nat) list \<Rightarrow> string \<Rightarrow> rat" where
  "level_accuracy level_stats name =
     (case map_of level_stats (Some name) of
        None \<Rightarrow> 0 / of_nat (max 1 1) * 100
      | Some (total_count, correct) \<Rightarrow> of_nat correct / of_nat (max total_count 1) * 100)"

text \<open>The loop that builds \<open>weak_topics\<close>.\<close>

fun weak_topics_loop :: "(string option \<times> nat \<times> nat) list \<Rightarrow> (string option \<times> rat) list" where
  "weak_topics_loop [] = []"
| "weak_topics_loop ((topic_key, total_count, correct) # rest) =
     (if total_count > 0
      then (let accuracy = of_nat correct / of_nat total_count * 100
            in if accuracy < 60 then (topic_key, accuracy) # weak_topics_loop rest
               else weak_topics_loop rest)
      else weak_topics_loop rest)"

text \<open>\<open>StudentCognitiveProfile.objects.get_or_create(student=student)\<close>, with the defaults
  of the model.\<close>

definition default_profile :: "nat \<Rightarrow> student_cognitive_profile" where
  "default_profile student_pk =
     \<lparr>p_student = student_pk, remember_accuracy = 0, understand_accuracy = 0,
      apply_accuracy = 0, analyse_accuracy = 0, evaluate_accuracy = 0, create_accuracy = 0,
      weak_topics = [], competency_level = ''Beginner'', recommend_difficulty = 5\<rparr>"

definition get_or_create_profile :: "db \<Rightarrow> nat \<Rightarrow> error + (student_cognitive_profile \<times> db)" where
  "get_or_create_profile d student_pk =
     (case filter (\<lambda>p. p_student p = student_pk) (cognitive_profiles d) of
        [] \<Rightarrow> Inr (default_profile student_pk,
                  d\<lparr>cognitive_profiles := cognitive_profiles d @ [default_profile student_pk]\<rparr>)
      | [p] \<Rightarrow> Inr (p, d)
      | _ \<Rightarrow> Inl MultipleObjectsReturned)"

definition updated_profile ::
  "student_cognitive_profile \<Rightarrow> (string option \<times> nat \<times> nat) list
     \<Rightarrow> (string option \<times> nat \<times> nat) list \<Rightarrow> student_cognitive_profile" where
  "updated_profile profile level_stats topic_stats =
     (let p1 = profile\<lparr>remember_accuracy := level_accuracy level_stats ''Remember'',
                       understand_accuracy := level_accuracy level_stats ''Understand'',
                       apply_accuracy := level_accuracy level_stats ''Apply'',
                       analyse_accuracy := level_accuracy level_stats ''Analyze'',
                       evaluate_accuracy := level_accuracy level_stats ''Evaluate'',
                       create_accuracy := level_accuracy level_stats ''Create'',
                       weak_topics := weak_topics_loop topic_stats\<rparr>;
          avg_accuracy = (remember_accuracy p1 + understand_accuracy p1 + apply_accuracy p1
                          + analyse_accuracy p1 + evaluate_accuracy p1 + create_accuracy p1) / 6
      in if avg_accuracy \<ge> 80
         then p1\<lparr>competency_level := ''Advanced'', recommend_difficulty := 8\<rparr>
         else if avg_accuracy \<ge> 60
         then p1\<lparr>competency_level := ''Intermediate'', recommend_difficulty := 5\<rparr>
         else p1\<lparr>competency_level := ''Beginner'', recommend_difficulty := 3\<rparr>)"

text \<open>The task. Every exception is caught and printed; the profile row that
  \<open>get_or_create\<close> created before the exception stays.\<close>

definition update_cognitive_profile :: "db \<Rightarrow> nat \<Rightarrow> db" where
  "update_cognitive_profile d student_pk =
     (case objects_get (\<lambda>u. u_id u = student_pk) (users d) of
        Inl e \<Rightarrow> d
      | Inr student \<Rightarrow>
          (case get_or_create_profile d (u_id student) of
             Inl e \<Rightarrow> d
           | Inr (profile, d1) \<Rightarrow>
               (case stats_loop d1 (student_answer_attempts d1 (u_id student)) [] [] of
                  Inl e \<Rightarrow> d1
                | Inr (level_stats, topic_stats) \<Rightarrow>
                    d1\<lparr>cognitive_profiles :=
                         map (\<lambda>p. if p_student p = p_student profile
                                  then updated_profile profile level_stats topic_stats else p)
                           (cognitive_profiles d1)\<rparr>)))"

section \<open>Feedback Payload Builder (tasks.generate\_personalised\_feedback)\<close>






section \<open>Auxiliary notions for the proofs\<close>

text \<open>A row with its score blanked: two rows with the same \<open>erase\<close> differ at most in
  \<open>score_achieved\<close>.\<close>

definition erase :: "user_answer_attempt \<Rightarrow> user_answer_attempt" where
  "erase ua = ua\<lparr>score_achieved := 0\<rparr>"


section \<open>The Score Calculator in the words of the specification\<close>






section \<open>Example databases\<close>

text \<open>One question worth 10 with two correct options and a wrong one; the student selects
  both correct options and used the hint.\<close>

definition hint_question :: question where
  "hint_question = \<lparr>q_id = 1, q_quest = 1, max_score = 10, cognitive_level = None, topic = None\<rparr>"

definition hint_attempt :: user_quest_attempt where
  "hint_attempt = \<lparr>uqa_id = 1, uqa_student = 1, uqa_quest = 1, submitted = True,
     first_attempted_date = None, last_attempted_date = None, total_score_achieved = 0\<rparr>"







text \<open>Ten answer attempts of one submitted attempt, each on a question of its own: five
  questions without a topic (two answered correctly) and five on the topic Python (three
  answered correctly).\<close>

definition topic_question :: "nat \<Rightarrow> string option \<Rightarrow> question" where
  "topic_question i t =
     \<lparr>q_id = i, q_quest = 1, max_score = 10, cognitive_level = Some ''Apply'', topic = t\<rparr>"

definition topic_ua :: "nat \<Rightarrow> bool \<Rightarrow> user_answer_attempt" where
  "topic_ua i c = \<lparr>ua_id = i, ua_user_quest_attempt = 1, ua_question = i,
     ua_answer = \<lparr>a_id = i, a_question = i, a_text = [], a_is_correct = c\<rparr>,
     is_selected = True, ua_is_correct = c, hint_used = False, score_achieved = 0\<rparr>"

definition topic_db :: db where
  "topic_db = empty_db\<lparr>
     users := [\<lparr>u_id = 1, username = ''student'', total_points = 0\<rparr>],
     questions := map (\<lambda>i. topic_question i None) [1, 2, 3, 4, 5]
                  @ map (\<lambda>i. topic_question i (Some ''Python'')) [6, 7, 8, 9, 10],
     user_quest_attempts := [hint_attempt],
     user_answer_attempts := [topic_ua 1 True, topic_ua 2 True, topic_ua 3 False,
        topic_ua 4 False, topic_ua 5 False, topic_ua 6 True, topic_ua 7 True, topic_ua 8 True,
        topic_ua 9 False, topic_ua 10 False]\<rparr>"



text \<open>An expired quest with one question of 10 points and four attempts, with scores
  10, 10, 8, 5 and elapsed times 50, 30, 10, 5 ms; and the same quest where every attempt
  scored 0.\<close>

definition expert_quest :: quest where
  "expert_quest = \<lparr>quest_id = 1, quest_course_group = 1, quest_type = ''Eduquest MCQ'',
     quest_status = ''Expired'', tutorial_date = None\<rparr>"

definition scored_attempt :: "nat \<Rightarrow> nat \<Rightarrow> rat \<Rightarrow> int \<Rightarrow> user_quest_attempt" where
  "scored_attempt i student score ms =
     \<lparr>uqa_id = i, uqa_student = student, uqa_quest = 1, submitted = True,
      first_attempted_date = Some 0, last_attempted_date = Some (ms * 1000),
      total_score_achieved = score\<rparr>"

definition ranking_db :: db where
  "ranking_db = empty_db\<lparr>quests := [expert_quest], questions := [hint_question],
     badges := [\<lparr>b_id = 1, b_name = ''Expert''\<rparr>, \<lparr>b_id = 2, b_name = ''Speedster''\<rparr>],
     user_quest_attempts := [scored_attempt 1 1 10 50, scored_attempt 2 2 10 30,
                             scored_attempt 3 3 8 10, scored_attempt 4 4 5 5]\<rparr>"

definition zero_score_db :: db where
  "zero_score_db = ranking_db\<lparr>user_quest_attempts :=
      [scored_attempt 1 1 0 50, scored_attempt 2 2 0 30]\<rparr>"

text \<open>The same quest with scores 10, 9, 8, 5: the fastest attempt holds the fourth
  score.\<close>

definition leaders_db :: db where
  "leaders_db = ranking_db\<lparr>user_quest_attempts := [scored_attempt 1 1 10 50,
      scored_attempt 2 2 9 30, scored_attempt 3 3 8 10, scored_attempt 4 4 5 5]\<rparr>"

section \<open>The Score Calculator does not read the scores it overwrites\<close>











section \<open>The Score Calculator computes what the specification states\<close>












lemma map_erase_update: "map erase (map (\<lambda>ua. ua\<lparr>score_achieved := f ua\<rparr>) uas) = map erase uas"
  by (induction uas) (simp_all add: erase_def)









section \<open>Cognitive profile: the bucket of a question without a topic\<close>

lemma weak_topics_loop_set:
  "set (weak_topics_loop stats) =
     {(k, of_nat c / of_nat t * 100) | k t c.
        (k, t, c) \<in> set stats \<and> t > 0 \<and> (of_nat c / of_nat t * 100 :: rat) < 60}"
proof (induction stats)
  case Nil
  then show ?case by simp
next
  case (Cons entry rest)
  obtain k t c where e: "entry = (k, t, c)" by (cases entry)
  show ?case
    unfolding e using Cons.IH
    by (auto simp: Let_def)
qed

text \<open>
  Claim C8 at a student whose answer attempts are five observations on questions without
  a topic (2 of 5 correct) and five on the topic Python (3 of 5 correct). The profile the
  task writes has one weak topic, 40 per cent, under the key \<open>None\<close>: the questions without
  a topic are not bucketed under General. The topic at 60 per cent is not in the map.
\<close>

theorem topicless_questions_bucketed_under_None:
  "map weak_topics (cognitive_profiles (update_cognitive_profile topic_db 1)) = [[(None, 40)]]"
  by code_simp

section \<open>Feedback is written on a parsed success response only\<close>


lemma objects_get_Inr: "objects_get P table = Inr x \<Longrightarrow> filter P table = [x]"
  by (auto simp: objects_get_def split: list.splits)

lemma objects_get_P: "objects_get P table = Inr x \<Longrightarrow> P x"
proof -
  assume "objects_get P table = Inr x"
  then have "filter P table = [x]" by (rule objects_get_Inr)
  then have "x \<in> set (filter P table)" by simp
  then show "P x" by simp
qed





section \<open>Expert badge\<close>

lemma aggregate_max_Max:
  assumes "xs \<noteq> []"
  shows "or_zero (aggregate_max xs) = Max (set xs)"
proof (cases xs)
  case Nil
  with assms show ?thesis by simp
next
  case (Cons x rest)
  have "Max (set (x # rest)) = fold max rest x" by (rule Max.set_eq_fold)
  with Cons show ?thesis by (simp add: aggregate_max_def or_zero_def)
qed

lemma filter_eq_distinct: "distinct xs \<Longrightarrow> x \<in> set xs \<Longrightarrow> filter (\<lambda>r. r = x) xs = [x]"
  by (induction xs) (auto simp: filter_empty_conv)

lemma get_or_create_user_quest_badge_distinct:
  assumes "distinct (user_quest_badges d)"
  shows "\<exists>created rows. get_or_create_user_quest_badge d b a
            = Inr (created, d\<lparr>user_quest_badges := rows\<rparr>)
          \<and> set rows = insert \<lparr>uqb_badge = b, uqb_user_quest_attempt = a\<rparr> (set (user_quest_badges d))
          \<and> distinct rows"
proof -
  let ?row = "\<lparr>uqb_badge = b, uqb_user_quest_attempt = a\<rparr>"
  have eq: "(\<lambda>r. uqb_badge r = b \<and> uqb_user_quest_attempt r = a) = (\<lambda>r. r = ?row)"
    by (rule ext) auto
  show ?thesis
  proof (cases "?row \<in> set (user_quest_badges d)")
    case True
    with assms have "filter (\<lambda>r. r = ?row) (user_quest_badges d) = [?row]"
      by (simp add: filter_eq_distinct)
    then have "get_or_create_user_quest_badge d b a = Inr (False, d\<lparr>user_quest_badges := user_quest_badges d\<rparr>)"
      by (simp add: get_or_create_user_quest_badge_def eq)
    moreover have "set (user_quest_badges d) = insert ?row (set (user_quest_badges d))"
      using True by (simp add: insert_absorb)
    ultimately show ?thesis using assms by blast
  next
    case False
    then have "filter (\<lambda>r. r = ?row) (user_quest_badges d) = []"
      by (auto simp: filter_empty_conv)
    then have "get_or_create_user_quest_badge d b a
        = Inr (True, d\<lparr>user_quest_badges := user_quest_badges d @ [?row]\<rparr>)"
      by (simp add: get_or_create_user_quest_badge_def eq)
    with False assms show ?thesis by auto
  qed
qed

lemma award_expert_loop_distinct:
  "distinct (user_quest_badges d) \<Longrightarrow>
   \<exists>rows. award_expert_loop d b attempts = (None, d\<lparr>user_quest_badges := rows\<rparr>)
     \<and> set rows = set (user_quest_badges d)
          \<union> (\<lambda>a. \<lparr>uqb_badge = b, uqb_user_quest_attempt = uqa_id a\<rparr>) ` set attempts
     \<and> distinct rows"
proof (induction attempts arbitrary: d)
  case Nil
  then show ?case by (intro exI[of _ "user_quest_badges d"]) simp
next
  case (Cons attempt rest)
  from get_or_create_user_quest_badge_distinct[OF Cons.prems, of b "uqa_id attempt"]
  obtain created rows where
    g: "get_or_create_user_quest_badge d b (uqa_id attempt) = Inr (created, d\<lparr>user_quest_badges := rows\<rparr>)"
    and s: "set rows = insert \<lparr>uqb_badge = b, uqb_user_quest_attempt = uqa_id attempt\<rparr> (set (user_quest_badges d))"
    and dr: "distinct rows" by blast
  let ?d1 = "d\<lparr>user_quest_badges := rows\<rparr>"
  from dr have "distinct (user_quest_badges ?d1)" by simp
  from Cons.IH[OF this] obtain rows' where
    l: "award_expert_loop ?d1 b rest = (None, ?d1\<lparr>user_quest_badges := rows'\<rparr>)"
    and s': "set rows' = set (user_quest_badges ?d1)
          \<union> (\<lambda>a. \<lparr>uqb_badge = b, uqb_user_quest_attempt = uqa_id a\<rparr>) ` set rest"
    and dr': "distinct rows'" by blast
  have "award_expert_loop d b (attempt # rest) = (None, d\<lparr>user_quest_badges := rows'\<rparr>)"
    using g l by simp
  moreover have "set rows' = set (user_quest_badges d)
          \<union> (\<lambda>a. \<lparr>uqb_badge = b, uqb_user_quest_attempt = uqa_id a\<rparr>) ` set (attempt # rest)"
    using s s' by auto
  ultimately show ?case using dr' by blast
qed

text \<open>
  Claim C6, as the code has it. For a quest that is found, is not private, has a nonzero
  total max score and has status Expired, with the Expert badge present and no duplicate
  badge row: if some attempt of the quest scored above 0, then after the task the badge
  rows are the rows before together with one Expert row for every attempt of the quest
  whose score no other attempt of the quest exceeds (ties all award). If no attempt
  scored above 0, the task awards nothing and leaves the database as it was.
\<close>

theorem expert_badge_awarded_to_all_top_attempts:
  assumes quest: "objects_get (\<lambda>q. quest_id q = quest_pk) (quests d) = Inr qst"
    and public: "quest_type qst \<noteq> ''Private''"
    and scored: "total_max_score d qst \<noteq> 0"
    and expired: "quest_status qst = ''Expired''"
    and badge: "objects_get (\<lambda>b. b_name b = ''Expert'') (badges d) = Inr bdg"
    and rows: "distinct (user_quest_badges d)"
  shows "if (\<exists>a\<in>set (user_quest_attempts d). uqa_quest a = quest_pk \<and> total_score_achieved a > 0)
         then set (user_quest_badges (snd (award_expert_badge d quest_pk)))
              = set (user_quest_badges d)
                \<union> {\<lparr>uqb_badge = b_id bdg, uqb_user_quest_attempt = uqa_id a\<rparr> | a.
                     a \<in> set (user_quest_attempts d) \<and> uqa_quest a = quest_pk
                     \<and> (\<forall>b\<in>set (user_quest_attempts d).
                           uqa_quest b = quest_pk \<longrightarrow> total_score_achieved b \<le> total_score_achieved a)}
         else award_expert_badge d quest_pk = (Expert_no_attempts, d)
              \<or> award_expert_badge d quest_pk = (Expert_no_score_above_zero, d)"
proof -
  from objects_get_P[OF quest] have pk: "quest_id qst = quest_pk" .
  let ?atts = "filter (\<lambda>a. uqa_quest a = quest_pk) (user_quest_attempts d)"
  let ?m = "Max (set (map total_score_achieved ?atts))"
  let ?top = "filter (\<lambda>a. total_score_achieved a = ?m) ?atts"
  show ?thesis
  proof (cases "?atts = []")
    case True
    then have "award_expert_badge d quest_pk = (Expert_no_attempts, d)"
      using quest public scored expired by (simp add: award_expert_badge_def pk)
    moreover from True have "\<not> (\<exists>a\<in>set (user_quest_attempts d). uqa_quest a = quest_pk \<and> total_score_achieved a > 0)"
      by (auto simp: filter_empty_conv)
    ultimately show ?thesis by auto
  next
    case False
    then have ne: "map total_score_achieved ?atts \<noteq> []" by simp
    have hs: "or_zero (aggregate_max (map total_score_achieved ?atts)) = ?m"
      by (rule aggregate_max_Max[OF ne])
    have fin: "finite (set (map total_score_achieved ?atts))" by simp
    have nes: "set (map total_score_achieved ?atts) \<noteq> {}" using ne by (simp only: set_empty not_False_eq_True)
    have "(?m > 0) = (\<exists>s\<in>set (map total_score_achieved ?atts). 0 < s)"
      by (rule Max_gr_iff[OF fin nes])
    also have "\<dots> = (\<exists>a\<in>set (user_quest_attempts d). uqa_quest a = quest_pk \<and> total_score_achieved a > 0)"
      by auto
    finally have pos: "(?m > 0) = (\<exists>a\<in>set (user_quest_attempts d). uqa_quest a = quest_pk \<and> total_score_achieved a > 0)" .
    show ?thesis
    proof (cases "?m > 0")
      case False
      then have "award_expert_badge d quest_pk = (Expert_no_score_above_zero, d)"
        using quest public scored expired \<open>?atts \<noteq> []\<close> hs
        by (simp add: award_expert_badge_def pk Let_def)
      moreover from False pos
      have "\<not> (\<exists>a\<in>set (user_quest_attempts d). uqa_quest a = quest_pk \<and> total_score_achieved a > 0)"
        by simp
      ultimately show ?thesis by (simp only: if_False simp_thms)
    next
      case True
      have top_char: "\<And>a. a \<in> set ?top \<longleftrightarrow>
          a \<in> set (user_quest_attempts d) \<and> uqa_quest a = quest_pk
          \<and> (\<forall>b\<in>set (user_quest_attempts d).
                uqa_quest b = quest_pk \<longrightarrow> total_score_achieved b \<le> total_score_achieved a)"
      proof -
        fix a
        show "a \<in> set ?top \<longleftrightarrow>
          a \<in> set (user_quest_attempts d) \<and> uqa_quest a = quest_pk
          \<and> (\<forall>b\<in>set (user_quest_attempts d).
                uqa_quest b = quest_pk \<longrightarrow> total_score_achieved b \<le> total_score_achieved a)"
        proof (cases "a \<in> set ?atts")
          case False
          then show ?thesis by auto
        next
          case ain: True
          then have mem: "total_score_achieved a \<in> set (map total_score_achieved ?atts)" by simp
          have "total_score_achieved a = ?m \<longleftrightarrow>
                (\<forall>s\<in>set (map total_score_achieved ?atts). s \<le> total_score_achieved a)"
            using Max_eq_iff[OF fin nes, of "total_score_achieved a"] mem by auto
          with ain show ?thesis by auto
        qed
      qed
      from award_expert_loop_distinct[OF rows, of "b_id bdg" ?top]
      obtain rws where
        l: "award_expert_loop d (b_id bdg) ?top = (None, d\<lparr>user_quest_badges := rws\<rparr>)"
        and s: "set rws = set (user_quest_badges d)
              \<union> (\<lambda>a. \<lparr>uqb_badge = b_id bdg, uqb_user_quest_attempt = uqa_id a\<rparr>) ` set ?top"
        by blast
      have res: "award_expert_badge d quest_pk
            = (if ?top = [] then (Expert_no_top_attempts, d)
               else (Expert_awarded (map uqa_id ?top), d\<lparr>user_quest_badges := rws\<rparr>))"
        using quest public scored expired \<open>?atts \<noteq> []\<close> hs True badge l
        by (simp add: award_expert_badge_def pk Let_def)
      have "set (user_quest_badges (snd (award_expert_badge d quest_pk)))
            = set (user_quest_badges d)
              \<union> (\<lambda>a. \<lparr>uqb_badge = b_id bdg, uqb_user_quest_attempt = uqa_id a\<rparr>) ` set ?top"
        unfolding res using s by (cases "?top = []") simp_all
      also have "(\<lambda>a. \<lparr>uqb_badge = b_id bdg, uqb_user_quest_attempt = uqa_id a\<rparr>) ` set ?top
          = {\<lparr>uqb_badge = b_id bdg, uqb_user_quest_attempt = uqa_id a\<rparr> | a.
                     a \<in> set (user_quest_attempts d) \<and> uqa_quest a = quest_pk
                     \<and> (\<forall>b\<in>set (user_quest_attempts d).
                           uqa_quest b = quest_pk \<longrightarrow> total_score_achieved b \<le> total_score_achieved a)}"
        using top_char by blast
      finally show ?thesis using True pos by simp
    qed
  qed
qed

theorem expert_badge_awarded_to_all_top_attempts_witness:
  "objects_get (\<lambda>q. quest_id q = 1) (quests ranking_db) = Inr expert_quest
   \<and> quest_type expert_quest \<noteq> ''Private''
   \<and> total_max_score ranking_db expert_quest \<noteq> 0
   \<and> quest_status expert_quest = ''Expired''
   \<and> objects_get (\<lambda>b. b_name b = ''Expert'') (badges ranking_db) = Inr \<lparr>b_id = 1, b_name = ''Expert''\<rparr>
   \<and> distinct (user_quest_badges ranking_db)
   \<and> \<lparr>uqb_badge = 1, uqb_user_quest_attempt = 1\<rparr>
        \<in> set (user_quest_badges (snd (award_expert_badge ranking_db 1)))
   \<and> \<lparr>uqb_badge = 1, uqb_user_quest_attempt = 2\<rparr>
        \<in> set (user_quest_badges (snd (award_expert_badge ranking_db 1)))"
proof -
  have h1: "objects_get (\<lambda>q. quest_id q = 1) (quests ranking_db) = Inr expert_quest"
    by code_simp
  have h2: "quest_type expert_quest \<noteq> ''Private''" by code_simp
  have h3: "total_max_score ranking_db expert_quest \<noteq> 0" by code_simp
  have h4: "quest_status expert_quest = ''Expired''" by code_simp
  have h5: "objects_get (\<lambda>b. b_name b = ''Expert'') (badges ranking_db)
              = Inr \<lparr>b_id = 1, b_name = ''Expert''\<rparr>" by code_simp
  have h6: "distinct (user_quest_badges ranking_db)" by code_simp
  have ex: "\<exists>a\<in>set (user_quest_attempts ranking_db). uqa_quest a = 1 \<and> total_score_achieved a > 0"
    by code_simp
  have top1: "scored_attempt 1 1 10 50 \<in> set (user_quest_attempts ranking_db)
      \<and> uqa_quest (scored_attempt 1 1 10 50) = 1
      \<and> (\<forall>b\<in>set (user_quest_attempts ranking_db). uqa_quest b = 1 \<longrightarrow>
            total_score_achieved b \<le> total_score_achieved (scored_attempt 1 1 10 50))"
    by code_simp
  have top2: "scored_attempt 2 2 10 30 \<in> set (user_quest_attempts ranking_db)
      \<and> uqa_quest (scored_attempt 2 2 10 30) = 1
      \<and> (\<forall>b\<in>set (user_quest_attempts ranking_db). uqa_quest b = 1 \<longrightarrow>
            total_score_achieved b \<le> total_score_achieved (scored_attempt 2 2 10 30))"
    by code_simp
  have i1: "uqa_id (scored_attempt 1 1 10 50) = 1" and i2: "uqa_id (scored_attempt 2 2 10 30) = 2"
    by (simp_all add: scored_attempt_def)
  from expert_badge_awarded_to_all_top_attempts[OF h1 h2 h3 h4 h5 h6] ex
  have eq: "set (user_quest_badges (snd (award_expert_badge ranking_db 1)))
     = set (user_quest_badges ranking_db)
       \<union> {\<lparr>uqb_badge = 1, uqb_user_quest_attempt = uqa_id a\<rparr> | a.
            a \<in> set (user_quest_attempts ranking_db) \<and> uqa_quest a = 1
            \<and> (\<forall>b\<in>set (user_quest_attempts ranking_db).
                  uqa_quest b = 1 \<longrightarrow> total_score_achieved b \<le> total_score_achieved a)}"
    by simp
  have "\<lparr>uqb_badge = 1, uqb_user_quest_attempt = uqa_id (scored_attempt 1 1 10 50)\<rparr>
        \<in> set (user_quest_badges (snd (award_expert_badge ranking_db 1)))"
    unfolding eq using top1 by blast
  then have r1: "\<lparr>uqb_badge = 1, uqb_user_quest_attempt = 1\<rparr>
        \<in> set (user_quest_badges (snd (award_expert_badge ranking_db 1)))"
    by (simp only: i1)
  have "\<lparr>uqb_badge = 1, uqb_user_quest_attempt = uqa_id (scored_attempt 2 2 10 30)\<rparr>
        \<in> set (user_quest_badges (snd (award_expert_badge ranking_db 1)))"
    unfolding eq using top2 by blast
  then have r2: "\<lparr>uqb_badge = 1, uqb_user_quest_attempt = 2\<rparr>
        \<in> set (user_quest_badges (snd (award_expert_badge ranking_db 1)))"
    by (simp only: i2)
  from h1 h2 h3 h4 h5 h6 r1 r2 show ?thesis by simp
qed

text \<open>Two attempts that both hold the maximum observed score, 0: no Expert badge.\<close>

theorem expert_badge_not_awarded_when_top_score_is_zero:
  "award_expert_badge zero_score_db 1 = (Expert_no_score_above_zero, zero_score_db)
   \<and> map total_score_achieved (user_quest_attempts zero_score_db) = [0, 0]
   \<and> user_quest_badges (snd (award_expert_badge zero_score_db 1)) = []"
  by code_simp

section \<open>Speedster badge\<close>









text \<open>With scores 10, 9, 8, 5 the fastest attempt holds the fourth score: no award.\<close>

lemma speedster_no_award_when_fastest_is_fourth:
  "award_speedster_badge leaders_db 1 = (Speedster_not_among_top_three, leaders_db)"
  by code_simp

end
